theory Spec2Isabelle
  imports Complex_Main
begin

section \<open>JavaScript values\<close>

text \<open>
  The dashboard client (\<^verbatim>\<open>src/frontend/src/App.jsx\<close>) works on values that come out of
  \<^verbatim>\<open>JSON.parse\<close> and out of HTTP responses. They are modelled by the datatype \<open>js\<close>:
  the six JSON kinds and \<^verbatim>\<open>undefined\<close>, the value of a property that an object does not
  have. An object is an association list; a property is looked up with \<open>map_of\<close>, so the
  first binding of a key is the object's value for it. Numbers are exact rationals:
  negative zero is identified with zero (both are falsy), and the rounding and the
  infinities of IEEE doubles are not represented. Strings are lists of \<open>char\<close>.
\<close>

datatype js =
    JUndefined
  | JNull
  | JBool bool
  | JNum rat
  | JStr string
  | JArr "js list"
  | JObj "(string \<times> js) list"

datatype js_error = SyntaxError | TypeError

text \<open>ToBoolean: what \<^verbatim>\<open>||\<close>, \<^verbatim>\<open>&&\<close> and \<^verbatim>\<open>?:\<close> test.\<close>

fun truthy :: "js \<Rightarrow> bool" where
  "truthy JUndefined = False"
| "truthy JNull = False"
| "truthy (JBool b) = b"
| "truthy (JNum r) = (r \<noteq> 0)"
| "truthy (JStr s) = (s \<noteq> [])"
| "truthy (JArr xs) = True"
| "truthy (JObj fs) = True"

text \<open>\<^verbatim>\<open>a || b\<close>: the left operand when it is truthy, the right one otherwise.\<close>

definition js_or :: "js \<Rightarrow> js \<Rightarrow> js" where
  "js_or a b = (if truthy a then a else b)"

text \<open>
  \<^verbatim>\<open>v === 'literal'\<close>: strict equality with a string literal holds for exactly the
  string with the same characters.
\<close>

definition strict_eq_str :: "js \<Rightarrow> string \<Rightarrow> bool" where
  "strict_eq_str v s = (v = JStr s)"

text \<open>
  \<^verbatim>\<open>v.key\<close> for the keys this program reads (\<^verbatim>\<open>robot_status\<close>, \<^verbatim>\<open>current_model\<close>,
  \<^verbatim>\<open>orders\<close>, \<^verbatim>\<open>status\<close> and the counters of an order; none is a built-in property):
  a TypeError on \<^verbatim>\<open>null\<close> and \<^verbatim>\<open>undefined\<close>, the own property of an object, and
  \<^verbatim>\<open>undefined\<close> everywhere else.
\<close>

fun field :: "js \<Rightarrow> string \<Rightarrow> js" where
  "field (JObj fs) k = (case map_of fs k of None \<Rightarrow> JUndefined | Some v \<Rightarrow> v)"
| "field v k = JUndefined"

fun read_prop :: "js \<Rightarrow> string \<Rightarrow> js_error + js" where
  "read_prop JUndefined k = Inl TypeError"
| "read_prop JNull k = Inl TypeError"
| "read_prop v k = Inr (field v k)"

definition bind_err :: "'e + 'a \<Rightarrow> ('a \<Rightarrow> 'e + 'b) \<Rightarrow> 'e + 'b" where
  "bind_err m f = (case m of Inl e \<Rightarrow> Inl e | Inr x \<Rightarrow> f x)"

fun is_array :: "js \<Rightarrow> bool" where
  "is_array (JArr xs) = True"
| "is_array v = False"

section \<open>The client's state\<close>

text \<open>
  The component \<^verbatim>\<open>App\<close> holds its state in \<^verbatim>\<open>useState\<close> cells (lines 9 to 16).
  \<open>selectedOrderId\<close> is \<^verbatim>\<open>null\<close> or the \<^verbatim>\<open>id\<close> of a rendered order, a string
  (line 264 calls \<^verbatim>\<open>substring\<close> on it): \<open>None\<close> stands for \<^verbatim>\<open>null\<close>. The cell
  \<^verbatim>\<open>ws\<close> holds the socket object; it is written once when the component mounts and
  never read, and is left out.
\<close>

record new_order =
  white_boxes :: int
  yellow_boxes :: int
  black_boxes :: int

record client =
  robotStatus :: js
  currentModel :: js
  orders :: js
  showCreateOrder :: bool
  newOrder :: new_order
  selectedOrderId :: "string option"
  isPickingInProgress :: bool

definition initial_new_order :: new_order where
  "initial_new_order = \<lparr>white_boxes = 1, yellow_boxes = 1, black_boxes = 0\<rparr>"

definition initial_client :: client where
  "initial_client =
     \<lparr>robotStatus = JStr ''idle'', currentModel = JNull, orders = JArr [],
      showCreateOrder = False, newOrder = initial_new_order,
      selectedOrderId = None, isPickingInProgress = False\<rparr>"

text \<open>
  A handler reads the state of the render it was created in (its closure) and acts
  on the world through setter calls, HTTP requests and the console. A run of a handler
  is the list of these operations in program order; \<open>run_ops\<close> applies the setters to
  the state, \<open>requests_of\<close> keeps the requests.
\<close>

datatype op =
    SetRobotStatus js
  | SetCurrentModel js
  | SetOrders js
  | SetShowCreateOrder bool
  | SetNewOrder new_order
  | SetSelectedOrderId "string option"
  | SetIsPickingInProgress bool
  | HttpGet string
  | HttpPost string js
  | HttpDelete string
  | ConsoleError string

fun apply_op :: "op \<Rightarrow> client \<Rightarrow> client" where
  "apply_op (SetRobotStatus v) c = c\<lparr>robotStatus := v\<rparr>"
| "apply_op (SetCurrentModel v) c = c\<lparr>currentModel := v\<rparr>"
| "apply_op (SetOrders v) c = c\<lparr>orders := v\<rparr>"
| "apply_op (SetShowCreateOrder b) c = c\<lparr>showCreateOrder := b\<rparr>"
| "apply_op (SetNewOrder n) c = c\<lparr>newOrder := n\<rparr>"
| "apply_op (SetSelectedOrderId i) c = c\<lparr>selectedOrderId := i\<rparr>"
| "apply_op (SetIsPickingInProgress b) c = c\<lparr>isPickingInProgress := b\<rparr>"
| "apply_op (HttpGet u) c = c"
| "apply_op (HttpPost u b) c = c"
| "apply_op (HttpDelete u) c = c"
| "apply_op (ConsoleError m) c = c"

fun run_ops :: "op list \<Rightarrow> client \<Rightarrow> client" where
  "run_ops [] c = c"
| "run_ops (x # xs) c = run_ops xs (apply_op x c)"

fun is_request :: "op \<Rightarrow> bool" where
  "is_request (HttpGet u) = True"
| "is_request (HttpPost u b) = True"
| "is_request (HttpDelete u) = True"
| "is_request x = False"

definition requests_of :: "op list \<Rightarrow> op list" where
  "requests_of xs = filter is_request xs"

text \<open>The outcome of an awaited axios call: resolved with \<^verbatim>\<open>response.data\<close>, or rejected.\<close>

datatype response = Resolved js | Rejected

definition API_URL :: string where
  "API_URL = ''http://localhost:8000''"

section \<open>The push channel: \<^verbatim>\<open>websocket.onmessage\<close> (lines 25 to 31)\<close>

text \<open>
  The argument is the outcome of \<^verbatim>\<open>JSON.parse(event.data)\<close>: a SyntaxError, or the parsed
  value. Each property read of \<^verbatim>\<open>data\<close> can throw; a throw ends the handler.
\<close>

definition onmessage :: "js_error + js \<Rightarrow> js_error + op list" where
  "onmessage parsed =
     bind_err parsed (\<lambda>data.
     bind_err (read_prop data ''robot_status'') (\<lambda>rs.
     bind_err (read_prop data ''current_model'') (\<lambda>cm.
     bind_err (read_prop data ''orders'') (\<lambda>os.
     bind_err (read_prop data ''robot_status'') (\<lambda>rs1.
     bind_err (read_prop data ''robot_status'') (\<lambda>rs2.
       Inr [SetRobotStatus rs,
            SetCurrentModel cm,
            SetOrders (js_or os (JArr [])),
            SetIsPickingInProgress
              (strict_eq_str rs1 ''picking'' \<or> strict_eq_str rs2 ''loading_model'')]))))))"

section \<open>Requests: \<^verbatim>\<open>fetchOrders\<close>, \<^verbatim>\<open>handlePick\<close>, \<^verbatim>\<open>createOrder\<close>, \<^verbatim>\<open>deleteOrder\<close>\<close>

text \<open>
  Each function takes the state of the render it was created in, its arguments and
  the outcome of every request it awaits. \<^verbatim>\<open>JSON.stringify\<close>, which axios applies to a
  request body, leaves out the properties of an object whose value is \<^verbatim>\<open>undefined\<close>:
  \<open>json_body\<close> is the object as it goes on the wire.
\<close>

fun json_body :: "js \<Rightarrow> js" where
  "json_body (JObj fs) = JObj (filter (\<lambda>kv. snd kv \<noteq> JUndefined) fs)"
| "json_body v = v"

definition null_or_str :: "string option \<Rightarrow> js" where
  "null_or_str i = (case i of None \<Rightarrow> JNull | Some s \<Rightarrow> JStr s)"

definition new_order_js :: "new_order \<Rightarrow> js" where
  "new_order_js n =
     JObj [(''white_boxes'', JNum (of_int (white_boxes n))),
           (''yellow_boxes'', JNum (of_int (yellow_boxes n))),
           (''black_boxes'', JNum (of_int (black_boxes n)))]"

text \<open>Lines 46 to 53.\<close>

definition fetchOrders :: "response \<Rightarrow> op list" where
  "fetchOrders got =
     HttpGet (API_URL @ ''/api/orders'') #
     (case got of
        Resolved d \<Rightarrow> [SetOrders d]
      | Rejected \<Rightarrow> [ConsoleError ''Error fetching orders:''])"

text \<open>Lines 55 to 66.\<close>

definition handlePick :: "client \<Rightarrow> string \<Rightarrow> response \<Rightarrow> op list" where
  "handlePick cl color posted =
     (if isPickingInProgress cl then []
      else
        HttpPost (API_URL @ ''/api/pick'')
          (json_body (JObj [(''color'', JStr color),
                            (''order_id'', null_or_str (selectedOrderId cl))])) #
        (case posted of
           Resolved d \<Rightarrow> []
         | Rejected \<Rightarrow> [ConsoleError ''Error picking box:'']))"

text \<open>Lines 68 to 77.\<close>

definition createOrder :: "client \<Rightarrow> response \<Rightarrow> response \<Rightarrow> op list" where
  "createOrder cl posted got =
     HttpPost (API_URL @ ''/api/orders'') (json_body (new_order_js (newOrder cl))) #
     (case posted of
        Resolved d \<Rightarrow>
          [SetShowCreateOrder False, SetNewOrder initial_new_order] @ fetchOrders got
      | Rejected \<Rightarrow> [ConsoleError ''Error creating order:''])"

text \<open>Lines 79 to 89.\<close>

definition deleteOrder :: "client \<Rightarrow> string \<Rightarrow> response \<Rightarrow> response \<Rightarrow> op list" where
  "deleteOrder cl orderId deleted got =
     HttpDelete (API_URL @ ''/api/orders/'' @ orderId) #
     (case deleted of
        Resolved d \<Rightarrow>
          (if selectedOrderId cl = Some orderId then [SetSelectedOrderId None] else []) @
          fetchOrders got
      | Rejected \<Rightarrow> [ConsoleError ''Error deleting order:''])"

section \<open>Status rendering: \<^verbatim>\<open>getStatusColor\<close>, \<^verbatim>\<open>getStatusIcon\<close> (lines 91 to 109)\<close>

text \<open>
  A \<^verbatim>\<open>switch\<close> compares with strict equality, in the order of its cases. An icon is the
  lucide component and its \<^verbatim>\<open>className\<close>.
\<close>

datatype lucide = CheckCircle | Loader2 | Activity | AlertCircle

datatype element = Element lucide string

definition getStatusColor :: "js \<Rightarrow> string" where
  "getStatusColor status =
     (if strict_eq_str status ''idle'' then ''text-green-400''
      else if strict_eq_str status ''loading_model'' then ''text-yellow-400''
      else if strict_eq_str status ''picking'' then ''text-blue-400''
      else if strict_eq_str status ''error'' then ''text-red-400''
      else ''text-gray-400'')"

definition getStatusIcon :: "js \<Rightarrow> element" where
  "getStatusIcon status =
     (if strict_eq_str status ''idle'' then Element CheckCircle ''w-5 h-5''
      else if strict_eq_str status ''loading_model'' then Element Loader2 ''w-5 h-5 animate-spin''
      else if strict_eq_str status ''picking'' then Element Activity ''w-5 h-5 animate-pulse''
      else if strict_eq_str status ''error'' then Element AlertCircle ''w-5 h-5''
      else Element Activity ''w-5 h-5'')"

section \<open>The create-order form (lines 351 to 382)\<close>

text \<open>
  \<^verbatim>\<open>parseInt(string)\<close> with no radix, as ECMA-262 defines it: leading white space is
  dropped, then a sign, then \<^verbatim>\<open>0x\<close> or \<^verbatim>\<open>0X\<close> (which makes the radix 16); the longest
  run of digits of the radix that follows is the number, and there is no number (NaN,
  here \<open>None\<close>) when that run is empty. The result is the mathematical integer; a
  JavaScript number holds it exactly up to \<open>2 ^ 53\<close>. White space is the ASCII one.
\<close>

definition is_ws :: "char \<Rightarrow> bool" where
  "is_ws c = (c \<in> set [CHR 0x09, CHR 0x0A, CHR 0x0B, CHR 0x0C, CHR 0x0D, CHR 0x20])"

definition digit_val :: "char \<Rightarrow> nat option" where
  "digit_val c =
     (let n = (of_char c :: nat) in
      if 48 \<le> n \<and> n \<le> 57 then Some (n - 48)
      else if 97 \<le> n \<and> n \<le> 122 then Some (n - 87)
      else if 65 \<le> n \<and> n \<le> 90 then Some (n - 55)
      else None)"

definition is_digit :: "nat \<Rightarrow> char \<Rightarrow> bool" where
  "is_digit R c = (case digit_val c of None \<Rightarrow> False | Some d \<Rightarrow> d < R)"

definition digits_value :: "nat \<Rightarrow> string \<Rightarrow> nat" where
  "digits_value R Z =
     foldl (\<lambda>acc c. acc * R + (case digit_val c of None \<Rightarrow> 0 | Some d \<Rightarrow> d)) 0 Z"

definition parseInt :: "string \<Rightarrow> int option" where
  "parseInt inputString =
     (let S = dropWhile is_ws inputString;
          sign = (if take 1 S = ''-'' then - 1 else 1 :: int);
          S1 = (if take 1 S = ''+'' \<or> take 1 S = ''-'' then drop 1 S else S);
          hex = (take 2 S1 = ''0x'' \<or> take 2 S1 = ''0X'');
          R = (if hex then 16 else 10);
          S2 = (if hex then drop 2 S1 else S1);
          Z = takeWhile (is_digit R) S2
      in if Z = [] then None else Some (sign * int (digits_value R Z)))"

text \<open>\<^verbatim>\<open>parseInt(e.target.value) || 0\<close>: NaN and zero are falsy.\<close>

definition parsed_or_0 :: "string \<Rightarrow> int" where
  "parsed_or_0 v = (case parseInt v of None \<Rightarrow> 0 | Some n \<Rightarrow> if n = 0 then 0 else n)"

text \<open>The three \<^verbatim>\<open>onChange\<close> handlers; \<open>v\<close> is \<^verbatim>\<open>e.target.value\<close>.\<close>

definition onChange_white :: "client \<Rightarrow> string \<Rightarrow> op list" where
  "onChange_white cl v = [SetNewOrder ((newOrder cl)\<lparr>white_boxes := parsed_or_0 v\<rparr>)]"

definition onChange_yellow :: "client \<Rightarrow> string \<Rightarrow> op list" where
  "onChange_yellow cl v = [SetNewOrder ((newOrder cl)\<lparr>yellow_boxes := parsed_or_0 v\<rparr>)]"

definition onChange_black :: "client \<Rightarrow> string \<Rightarrow> op list" where
  "onChange_black cl v = [SetNewOrder ((newOrder cl)\<lparr>black_boxes := parsed_or_0 v\<rparr>)]"

section \<open>The progress bar of an order (lines 305 to 318)\<close>

text \<open>
  The width is computed on numbers. \<open>num_or_0\<close> is \<^verbatim>\<open>x || 0\<close> read as a number: a
  number is itself, any other falsy value (\<^verbatim>\<open>undefined\<close>, \<^verbatim>\<open>null\<close>, \<^verbatim>\<open>false\<close>, the
  empty string) gives 0, and a truthy value that is not a number is outside the
  arithmetic modelled here (\<open>None\<close>). Division is the exact quotient when the divisor
  is not zero; a zero divisor gives NaN or an infinity, as in JavaScript.
\<close>

datatype jsnum = NaN | PosInfinity | NegInfinity | Finite rat

definition num_or_0 :: "js \<Rightarrow> rat option" where
  "num_or_0 x =
     (if truthy x then (case x of JNum r \<Rightarrow> Some r | _ \<Rightarrow> None) else Some 0)"

definition js_div :: "rat \<Rightarrow> rat \<Rightarrow> jsnum" where
  "js_div a b =
     (if b = 0 then (if a = 0 then NaN else if 0 < a then PosInfinity else NegInfinity)
      else Finite (a / b))"

fun js_times_100 :: "jsnum \<Rightarrow> jsnum" where
  "js_times_100 (Finite r) = Finite (r * 100)"
| "js_times_100 x = x"

definition add3 :: "rat option \<Rightarrow> rat option \<Rightarrow> rat option \<Rightarrow> rat option" where
  "add3 a b c =
     (case (a, b, c) of (Some x, Some y, Some z) \<Rightarrow> Some (x + y + z) | _ \<Rightarrow> None)"

definition completed_total :: "js \<Rightarrow> rat option" where
  "completed_total order =
     add3 (num_or_0 (field order ''completed_white''))
          (num_or_0 (field order ''completed_yellow''))
          (num_or_0 (field order ''completed_black''))"

definition requested_total :: "js \<Rightarrow> rat option" where
  "requested_total order =
     add3 (num_or_0 (field order ''white_boxes''))
          (num_or_0 (field order ''yellow_boxes''))
          (num_or_0 (field order ''black_boxes''))"

text \<open>
  The bar of one order: not rendered unless the status is \<^verbatim>\<open>'in_progress'\<close>, else the
  number put before the \<^verbatim>\<open>%\<close> sign.
\<close>

datatype bar = NotRendered | NotNumeric | Width jsnum

definition progress_bar :: "js \<Rightarrow> bar" where
  "progress_bar order =
     (if strict_eq_str (field order ''status'') ''in_progress'' then
        (case (completed_total order, requested_total order) of
           (Some n, Some d) \<Rightarrow> Width (js_times_100 (js_div n d))
         | _ \<Rightarrow> NotNumeric)
      else NotRendered)"

section \<open>The coordinator behind \<^verbatim>\<open>POST /api/pick\<close>\<close>

text \<open>
  The server that answers the client's requests (\<^verbatim>\<open>app_v2.py\<close>, started by
  \<^verbatim>\<open>src/backend/start.sh\<close>) is not among the sources. What the specification says of
  its robot state machine, order store and coordinator (sections 3, 4.1 to 4.3 and 5)
  is modelled here as a machine that takes one event at a time. A call of
  \<open>handlePick\<close> runs without interruption up to an actuator call, the only place where
  it is suspended (section 5); the completion of the actuator call is a later event.
\<close>

text \<open>
  Modelled from the spec: the colors, the robot's status and an order's status
  (section 3), and the responses of a pick request (sections 6 and 7). The server's
  own declarations are missing.
\<close>

datatype color = White | Yellow | Black

datatype robot_status = Idle | Loading_model | Picking | Error

datatype order_status = Pending | In_progress | Completed

datatype outcome =
  Success | Busy | OrderNotFound | OrderExhausted | ModelLoadFailed | PickFailed

text \<open>Modelled from the spec: the Order of section 3 (the server's record is missing).\<close>

record order =
  order_id :: nat
  requested :: "color \<Rightarrow> nat"
  completed :: "color \<Rightarrow> nat"
  order_status :: order_status

text \<open>Modelled from the spec: the PickRequest of section 3.\<close>

record pick_request =
  pick_color :: color
  pick_order :: "nat option"

text \<open>
  Modelled from the spec: where a call of the coordinator's handlePick stands: suspended
  in the actuator's model load, suspended in the actuator's pick, or returned with an
  outcome.
\<close>

datatype phase = AwaitLoad | AwaitPick | Returned outcome

record call =
  call_request :: pick_request
  call_phase :: phase

text \<open>
  Modelled from the spec: the state the coordinator owns: the one RobotState of
  section 3, the Order Store in creation order, the next order id, and every
  handlePick call issued so far, in the order of issue.
\<close>

record system =
  status :: robot_status
  current_model :: "color option"
  order_store :: "order list"
  next_order_id :: nat
  calls :: "call list"

text \<open>
  Modelled from the spec: the state at start: the robot idle with no model loaded, no
  order, no call.
\<close>

definition initial_system :: system where
  "initial_system =
     \<lparr>status = Idle, current_model = None, order_store = [], next_order_id = 0, calls = []\<rparr>"

text \<open>
  Modelled from the spec: the status of an order (section 3): completed when every
  color has reached its requested count, pending when nothing is completed yet,
  in progress otherwise.
\<close>

definition derive_status :: "(color \<Rightarrow> nat) \<Rightarrow> (color \<Rightarrow> nat) \<Rightarrow> order_status" where
  "derive_status req done =
     (if list_all (\<lambda>c. done c = req c) [White, Yellow, Black] then Completed
      else if list_all (\<lambda>c. done c = 0) [White, Yellow, Black] then Pending
      else In_progress)"

text \<open>Modelled from the spec: Order Store create (section 4.2).\<close>

definition create_order :: "(color \<Rightarrow> nat) \<Rightarrow> system \<Rightarrow> system" where
  "create_order req s =
     s\<lparr>order_store := order_store s @
          [\<lparr>order_id = next_order_id s, requested = req, completed = (\<lambda>c. 0),
            order_status = derive_status req (\<lambda>c. 0)\<rparr>],
       next_order_id := Suc (next_order_id s)\<rparr>"

text \<open>Modelled from the spec: Order Store delete (section 4.2); an absent id changes nothing.\<close>

definition delete_order :: "nat \<Rightarrow> system \<Rightarrow> system" where
  "delete_order i s = s\<lparr>order_store := filter (\<lambda>ord. order_id ord \<noteq> i) (order_store s)\<rparr>"

text \<open>
  Modelled from the spec: Order Store recordPick (section 4.2): NotFound and Exhausted
  leave the store as it is, success increments the counter and recomputes the status.
\<close>

definition record_one :: "color \<Rightarrow> order \<Rightarrow> order" where
  "record_one c ord =
     (if completed ord c < requested ord c then
        ord\<lparr>completed := (completed ord)(c := Suc (completed ord c)),
            order_status :=
              derive_status (requested ord) ((completed ord)(c := Suc (completed ord c)))\<rparr>
      else ord)"

definition recordPick :: "nat \<Rightarrow> color \<Rightarrow> order list \<Rightarrow> order list" where
  "recordPick i c os = map (\<lambda>ord. if order_id ord = i then record_one c ord else ord) os"

text \<open>
  Modelled from the spec: step 1 of handlePick (section 4.3): a request that names an
  order fails fast with OrderNotFound or OrderExhausted when the order cannot absorb the
  color; \<open>None\<close> when the request passes.
\<close>

definition validate :: "pick_request \<Rightarrow> order list \<Rightarrow> outcome option" where
  "validate r os =
     (case pick_order r of
        None \<Rightarrow> None
      | Some i \<Rightarrow>
          (case find (\<lambda>ord. order_id ord = i) os of
             None \<Rightarrow> Some OrderNotFound
           | Some ord \<Rightarrow>
               if completed ord (pick_color r) < requested ord (pick_color r) then None
               else Some OrderExhausted))"

text \<open>
  Modelled from the spec: the Robot State Machine's requestPick (section 4.1) up to the
  actuator call: Busy when the status is not idle, straight to picking when the color is
  the loaded model, to loading_model otherwise. It returns the phase of the call and the
  robot's new status.
\<close>

definition requestPick :: "color \<Rightarrow> system \<Rightarrow> phase \<times> robot_status" where
  "requestPick c s =
     (if status s \<noteq> Idle then (Returned Busy, status s)
      else if current_model s = Some c then (AwaitPick, Picking)
      else (AwaitLoad, Loading_model))"

text \<open>
  Modelled from the spec: handlePick (section 4.3) from its entry to its first
  suspension: step 1, then step 2. The call is added to the calls issued.
\<close>

definition issue :: "pick_request \<Rightarrow> system \<Rightarrow> system" where
  "issue r s =
     (case validate r (order_store s) of
        Some e \<Rightarrow> s\<lparr>calls := calls s @ [\<lparr>call_request = r, call_phase = Returned e\<rparr>]\<rparr>
      | None \<Rightarrow>
          (case requestPick (pick_color r) s of
             (ph, st) \<Rightarrow>
               s\<lparr>status := st, calls := calls s @ [\<lparr>call_request = r, call_phase = ph\<rparr>]\<rparr>))"

text \<open>
  Modelled from the spec: a call moves on to its next phase; the other calls are not
  touched.
\<close>

definition set_phase :: "nat \<Rightarrow> phase \<Rightarrow> call list \<Rightarrow> call list" where
  "set_phase i ph cs = cs[i := (cs ! i)\<lparr>call_phase := ph\<rparr>]"

text \<open>
  Modelled from the spec: the actuator's model load completes for call \<open>i\<close>
  (section 4.1): on success the model is the requested color and the robot goes on to
  picking, on failure the robot is in error and the call returns ModelLoadFailed. The
  event concerns only a call that is suspended in a model load.
\<close>

definition load_done :: "nat \<Rightarrow> bool \<Rightarrow> system \<Rightarrow> system" where
  "load_done i ok s =
     (if i < length (calls s) \<and> call_phase (calls s ! i) = AwaitLoad then
        (if ok then
           s\<lparr>status := Picking,
             current_model := Some (pick_color (call_request (calls s ! i))),
             calls := set_phase i AwaitPick (calls s)\<rparr>
         else
           s\<lparr>status := Error, calls := set_phase i (Returned ModelLoadFailed) (calls s)\<rparr>)
      else s)"

text \<open>
  Modelled from the spec: the actuator's pick completes for call \<open>i\<close> (sections 4.1
  and 4.3, steps 3 and 4): on success the robot is idle again and the pick is recorded
  on the order the request names, on failure the robot is in error and the store is
  not touched.
\<close>

definition pick_done :: "nat \<Rightarrow> bool \<Rightarrow> system \<Rightarrow> system" where
  "pick_done i ok s =
     (if i < length (calls s) \<and> call_phase (calls s ! i) = AwaitPick then
        (if ok then
           s\<lparr>status := Idle,
             order_store :=
               (case pick_order (call_request (calls s ! i)) of
                  None \<Rightarrow> order_store s
                | Some j \<Rightarrow> recordPick j (pick_color (call_request (calls s ! i))) (order_store s)),
             calls := set_phase i (Returned Success) (calls s)\<rparr>
         else
           s\<lparr>status := Error, calls := set_phase i (Returned PickFailed) (calls s)\<rparr>)
      else s)"

text \<open>Modelled from the spec: the operator's reset, the only way out of error (section 4.1).\<close>

definition reset :: "system \<Rightarrow> system" where
  "reset s = (if status s = Error then s\<lparr>status := Idle\<rparr> else s)"

text \<open>
  Modelled from the spec: what can happen to the coordinator, one event at a time, in
  any order: a handlePick call arrives, an actuator call completes, an order is created
  or deleted, the operator resets the robot.
\<close>

datatype event =
    Issue pick_request
  | LoadDone nat bool
  | PickDone nat bool
  | CreateOrder "color \<Rightarrow> nat"
  | DeleteOrder nat
  | Reset

text \<open>
  Modelled from the spec: the coordinator handles one event, and a sequence of events
  from a given state.
\<close>

fun step :: "system \<Rightarrow> event \<Rightarrow> system" where
  "step s (Issue r) = issue r s"
| "step s (LoadDone i ok) = load_done i ok s"
| "step s (PickDone i ok) = pick_done i ok s"
| "step s (CreateOrder req) = create_order req s"
| "step s (DeleteOrder i) = delete_order i s"
| "step s Reset = reset s"

definition run :: "event list \<Rightarrow> system \<Rightarrow> system" where
  "run evs s = foldl step s evs"

text \<open>
  Modelled from the spec: a call is in flight, and owns the robot, while it is suspended
  in an actuator call.
\<close>

definition in_flight :: "call \<Rightarrow> bool" where
  "in_flight c = (call_phase c = AwaitLoad \<or> call_phase c = AwaitPick)"

definition flying :: "system \<Rightarrow> call list" where
  "flying s = filter in_flight (calls s)"

text \<open>Modelled from the spec: the RobotState of section 3, status and loaded model.\<close>

definition robot_of :: "system \<Rightarrow> robot_status \<times> color option" where
  "robot_of s = (status s, current_model s)"

text \<open>
  The number of calls in a given phase, and the invariant that ties it to the robot's
  status: a call is suspended in a model load exactly when the status is loading_model,
  in a pick exactly when it is picking, and then it is the only one.
\<close>

definition n_phase :: "phase \<Rightarrow> call list \<Rightarrow> nat" where
  "n_phase ph cs = length (filter (\<lambda>c. call_phase c = ph) cs)"

definition coherent :: "system \<Rightarrow> bool" where
  "coherent s =
     (n_phase AwaitLoad (calls s) = (if status s = Loading_model then 1 else 0) \<and>
      n_phase AwaitPick (calls s) = (if status s = Picking then 1 else 0))"

section \<open>Properties of the client\<close>

lemma read_prop_defined:
  "data \<noteq> JNull \<Longrightarrow> data \<noteq> JUndefined \<Longrightarrow> read_prop data k = Inr (field data k)"
  by (cases data) simp_all

lemma onmessage_completes:
  assumes "data \<noteq> JNull" and "data \<noteq> JUndefined"
  shows "onmessage (Inr data) =
    Inr [SetRobotStatus (field data ''robot_status''),
         SetCurrentModel (field data ''current_model''),
         SetOrders (js_or (field data ''orders'') (JArr [])),
         SetIsPickingInProgress
           (field data ''robot_status'' = JStr ''picking'' \<or>
            field data ''robot_status'' = JStr ''loading_model'')]"
  using assms by (simp add: onmessage_def bind_err_def read_prop_defined strict_eq_str_def)

lemma onmessage_throws:
  "onmessage (Inl e) = Inl e" "onmessage (Inr JNull) = Inl TypeError"
  "onmessage (Inr JUndefined) = Inl TypeError"
  by (simp_all add: onmessage_def bind_err_def)

text \<open>
  C2: on every push-channel message (every parsed value on which the handler runs to
  its end: any value but \<^verbatim>\<open>null\<close>), the handler completes, and afterwards the busy flag
  \<open>isPickingInProgress\<close> is true if and only if the message's \<^verbatim>\<open>robot_status\<close> is the
  string \<^verbatim>\<open>'picking'\<close> or the string \<^verbatim>\<open>'loading_model'\<close>. Every other status, an absent
  one included, gives a false flag, whatever the flag was before.
\<close>

theorem onmessage_busy_flag:
  assumes "data \<noteq> JNull" and "data \<noteq> JUndefined"
  shows "\<exists>ops. onmessage (Inr data) = Inr ops \<and>
      isPickingInProgress (run_ops ops c) =
        (field data ''robot_status'' = JStr ''picking'' \<or>
         field data ''robot_status'' = JStr ''loading_model'')"
  by (simp add: onmessage_completes [OF assms])

theorem onmessage_busy_flag_witness:
  "(\<exists>ops. onmessage (Inr (JObj [(''robot_status'', JStr ''loading_model'')])) = Inr ops \<and>
      isPickingInProgress (run_ops ops initial_client)) \<and>
   (\<exists>ops. onmessage (Inr (JObj [(''robot_status'', JStr ''error'')])) = Inr ops \<and>
      \<not> isPickingInProgress (run_ops ops (initial_client\<lparr>isPickingInProgress := True\<rparr>)))"
  using onmessage_busy_flag [of "JObj [(''robot_status'', JStr ''loading_model'')]" initial_client]
    onmessage_busy_flag [of "JObj [(''robot_status'', JStr ''error'')]"
      "initial_client\<lparr>isPickingInProgress := True\<rparr>"]
  by simp

text \<open>
  C3: when the busy flag of the render is true, \<^verbatim>\<open>handlePick(color)\<close> does nothing, for
  every color and every state: it performs no operation at all, so it issues no request
  (no \<^verbatim>\<open>POST /api/pick\<close>) and leaves the client state as it is.
\<close>

theorem handlePick_busy_noop:
  assumes "isPickingInProgress cl"
  shows "handlePick cl color posted = [] \<and>
         requests_of (handlePick cl color posted) = [] \<and>
         run_ops (handlePick cl color posted) c = c"
  using assms by (simp add: handlePick_def requests_of_def)

theorem handlePick_busy_noop_witness:
  "handlePick (initial_client\<lparr>isPickingInProgress := True\<rparr>) ''white'' (Resolved JNull) = [] \<and>
   run_ops (handlePick (initial_client\<lparr>isPickingInProgress := True\<rparr>) ''white'' (Resolved JNull))
     (initial_client\<lparr>isPickingInProgress := True\<rparr>) = initial_client\<lparr>isPickingInProgress := True\<rparr>"
  using handlePick_busy_noop [of "initial_client\<lparr>isPickingInProgress := True\<rparr>" "''white''"
      "Resolved JNull" "initial_client\<lparr>isPickingInProgress := True\<rparr>"]
  by simp

text \<open>
  C7: the requests \<^verbatim>\<open>handlePick(color)\<close> issues: none when the busy flag is set, else
  exactly one \<^verbatim>\<open>POST\<close> to \<^verbatim>\<open>/api/pick\<close> whose body, as it goes on the wire, has the two
  properties \<^verbatim>\<open>color\<close>, the requested color, and \<^verbatim>\<open>order_id\<close>, the selected order's id or
  \<^verbatim>\<open>null\<close> when no order is selected. The property \<^verbatim>\<open>order_id\<close> is never left out.
\<close>

theorem handlePick_body:
  "requests_of (handlePick cl color posted) =
     (if isPickingInProgress cl then []
      else [HttpPost ''http://localhost:8000/api/pick''
              (JObj [(''color'', JStr color),
                     (''order_id'', case selectedOrderId cl of None \<Rightarrow> JNull | Some i \<Rightarrow> JStr i)])])"
  by (cases posted)
     (simp_all add: handlePick_def requests_of_def API_URL_def null_or_str_def split: option.split)

theorem handlePick_body_witness:
  "requests_of (handlePick initial_client ''yellow'' Rejected) =
     [HttpPost ''http://localhost:8000/api/pick''
        (JObj [(''color'', JStr ''yellow''), (''order_id'', JNull)])] \<and>
   requests_of (handlePick (initial_client\<lparr>selectedOrderId := Some ''ab12''\<rparr>) ''black'' (Resolved JNull)) =
     [HttpPost ''http://localhost:8000/api/pick''
        (JObj [(''color'', JStr ''black''), (''order_id'', JStr ''ab12'')])]"
  using handlePick_body [of initial_client "''yellow''" Rejected]
    handlePick_body [of "initial_client\<lparr>selectedOrderId := Some ''ab12''\<rparr>" "''black''" "Resolved JNull"]
  by (simp add: initial_client_def)

lemma run_ops_append: "run_ops (xs @ ys) c = run_ops ys (run_ops xs c)"
  by (induction xs arbitrary: c) simp_all

lemma fetchOrders_selection: "selectedOrderId (run_ops (fetchOrders got) c) = selectedOrderId c"
  by (cases got) (simp_all add: fetchOrders_def)

text \<open>
  What \<^verbatim>\<open>deleteOrder(id)\<close> does to the selection once its \<^verbatim>\<open>DELETE\<close> request has succeeded:
  the test of line 82 reads \<open>selectedOrderId\<close> of \<open>cl\<close>, the render the handler was created
  in, and the setter acts on \<open>c\<close>, the state at the time the request resolves.
\<close>

lemma deleteOrder_selection_of_closure:
  "selectedOrderId (run_ops (deleteOrder cl orderId (Resolved d) got) c) =
     (if selectedOrderId cl = Some orderId then None else selectedOrderId c)"
  by (simp add: deleteOrder_def run_ops_append fetchOrders_selection)

text \<open>
  C6: the selection is not always cleared when the selected order is deleted. With no
  order selected, the user presses the delete button of order \<^verbatim>\<open>a1\<close> and, while the
  \<^verbatim>\<open>DELETE\<close> request is pending, selects \<^verbatim>\<open>a1\<close> (line 256). When the request resolves,
  line 82 compares the \<^verbatim>\<open>null\<close> of the handler's render with \<^verbatim>\<open>a1\<close>, so the selection
  stays \<^verbatim>\<open>a1\<close>, the deleted order, and the next \<^verbatim>\<open>handlePick\<close> posts its id. The other way
  round, with \<^verbatim>\<open>a1\<close> selected when the button is pressed and \<^verbatim>\<open>b2\<close> selected while the
  request is pending, the selection of \<^verbatim>\<open>b2\<close>, which is not the deleted order, is cleared.
\<close>

theorem deleteOrder_stale_selection:
  "deleteOrder initial_client ''a1'' (Resolved JNull) (Resolved (JArr [])) =
     [HttpDelete ''http://localhost:8000/api/orders/a1'',
      HttpGet ''http://localhost:8000/api/orders'', SetOrders (JArr [])] \<and>
   selectedOrderId
     (run_ops (deleteOrder initial_client ''a1'' (Resolved JNull) (Resolved (JArr [])))
        (apply_op (SetSelectedOrderId (Some ''a1'')) initial_client)) = Some ''a1'' \<and>
   requests_of
     (handlePick
        (run_ops (deleteOrder initial_client ''a1'' (Resolved JNull) (Resolved (JArr [])))
           (apply_op (SetSelectedOrderId (Some ''a1'')) initial_client))
        ''white'' (Resolved JNull)) =
     [HttpPost ''http://localhost:8000/api/pick''
        (JObj [(''color'', JStr ''white''), (''order_id'', JStr ''a1'')])] \<and>
   selectedOrderId
     (run_ops (deleteOrder (initial_client\<lparr>selectedOrderId := Some ''a1''\<rparr>) ''a1''
                 (Resolved JNull) (Resolved (JArr [])))
        (apply_op (SetSelectedOrderId (Some ''b2'')) (initial_client\<lparr>selectedOrderId := Some ''a1''\<rparr>))) =
     None"
  by (simp add: deleteOrder_def fetchOrders_def handlePick_def requests_of_def API_URL_def
      null_or_str_def initial_client_def)

text \<open>
  C8, as amended: on every push-channel message the handler completes and the client's
  robot status and current model are the message's \<^verbatim>\<open>robot_status\<close> and \<^verbatim>\<open>current_model\<close>,
  and its order list is the message's \<^verbatim>\<open>orders\<close> when that is truthy (every array is) and
  the empty array otherwise. None of the three depends on the state before.
\<close>

theorem onmessage_replaces_snapshot:
  assumes "data \<noteq> JNull" and "data \<noteq> JUndefined"
  shows "\<exists>ops. onmessage (Inr data) = Inr ops \<and>
      robotStatus (run_ops ops c) = field data ''robot_status'' \<and>
      currentModel (run_ops ops c) = field data ''current_model'' \<and>
      orders (run_ops ops c) =
        (if truthy (field data ''orders'') then field data ''orders'' else JArr [])"
  by (simp add: onmessage_completes [OF assms] js_or_def)

theorem onmessage_replaces_snapshot_witness:
  "\<exists>ops. onmessage (Inr (JObj [(''robot_status'', JStr ''picking''),
                                (''current_model'', JStr ''white''),
                                (''orders'', JArr [JObj [(''id'', JStr ''a1'')]])])) = Inr ops \<and>
      robotStatus (run_ops ops initial_client) = JStr ''picking'' \<and>
      currentModel (run_ops ops initial_client) = JStr ''white'' \<and>
      orders (run_ops ops initial_client) = JArr [JObj [(''id'', JStr ''a1'')]]"
  using onmessage_replaces_snapshot [of "JObj [(''robot_status'', JStr ''picking''),
                                (''current_model'', JStr ''white''),
                                (''orders'', JArr [JObj [(''id'', JStr ''a1'')]])]" initial_client]
  by simp

text \<open>
  C8 as stated fails on a message whose \<^verbatim>\<open>orders\<close> is \<^verbatim>\<open>null\<close>: the order list becomes
  the empty array, which is not the message's \<^verbatim>\<open>orders\<close> field.
\<close>

theorem onmessage_null_orders_counterexample:
  "onmessage (Inr (JObj [(''robot_status'', JStr ''idle''), (''current_model'', JNull),
                         (''orders'', JNull)])) =
     Inr [SetRobotStatus (JStr ''idle''), SetCurrentModel JNull, SetOrders (JArr []),
          SetIsPickingInProgress False] \<and>
   orders (run_ops [SetRobotStatus (JStr ''idle''), SetCurrentModel JNull, SetOrders (JArr []),
          SetIsPickingInProgress False] initial_client) \<noteq>
     field (JObj [(''robot_status'', JStr ''idle''), (''current_model'', JNull),
                  (''orders'', JNull)]) ''orders''"
  by (simp add: onmessage_def bind_err_def js_or_def strict_eq_str_def)

text \<open>
  C10: on every push-channel message whose \<^verbatim>\<open>orders\<close> is absent, \<^verbatim>\<open>null\<close> or falsy in any
  other way, the handler completes and sets the order list to the empty array, not to an
  undefined value; so the order list is an array after every message whose \<^verbatim>\<open>orders\<close> is
  falsy or an array.
\<close>

theorem onmessage_orders_array:
  assumes "data \<noteq> JNull" and "data \<noteq> JUndefined"
  shows "\<exists>ops. onmessage (Inr data) = Inr ops \<and>
      (\<not> truthy (field data ''orders'') \<longrightarrow> orders (run_ops ops c) = JArr []) \<and>
      (\<not> truthy (field data ''orders'') \<or> is_array (field data ''orders'') \<longrightarrow>
         is_array (orders (run_ops ops c)))"
  by (cases "field data ''orders''") (simp_all add: onmessage_completes [OF assms] js_or_def)

theorem onmessage_orders_array_witness:
  "(\<exists>ops. onmessage (Inr (JObj [(''robot_status'', JStr ''idle'')])) = Inr ops \<and>
      orders (run_ops ops (initial_client\<lparr>orders := JArr [JNull]\<rparr>)) = JArr []) \<and>
   (\<exists>ops. onmessage (Inr (JObj [(''orders'', JNum 0)])) = Inr ops \<and>
      orders (run_ops ops (initial_client\<lparr>orders := JArr [JNull]\<rparr>)) = JArr [])"
  using onmessage_orders_array [of "JObj [(''robot_status'', JStr ''idle'')]"
      "initial_client\<lparr>orders := JArr [JNull]\<rparr>"]
    onmessage_orders_array [of "JObj [(''orders'', JNum 0)]"
      "initial_client\<lparr>orders := JArr [JNull]\<rparr>"]
  by auto

text \<open>
  C9: for every status value, a string or not, \<^verbatim>\<open>getStatusColor\<close> returns one of its five
  color classes and \<^verbatim>\<open>getStatusIcon\<close> one of its five icons; a status outside
  \<^verbatim>\<open>idle\<close>, \<^verbatim>\<open>loading_model\<close>, \<^verbatim>\<open>picking\<close>, \<^verbatim>\<open>error\<close> gets the default branch, the gray
  class and the plain activity icon.
\<close>

theorem status_rendering_total:
  "getStatusColor s \<in> set [''text-green-400'', ''text-yellow-400'', ''text-blue-400'',
                            ''text-red-400'', ''text-gray-400''] \<and>
   getStatusIcon s \<in> set [Element CheckCircle ''w-5 h-5'', Element Loader2 ''w-5 h-5 animate-spin'',
                            Element Activity ''w-5 h-5 animate-pulse'', Element AlertCircle ''w-5 h-5'',
                            Element Activity ''w-5 h-5''] \<and>
   (s \<notin> set [JStr ''idle'', JStr ''loading_model'', JStr ''picking'', JStr ''error''] \<longrightarrow>
      getStatusColor s = ''text-gray-400'' \<and> getStatusIcon s = Element Activity ''w-5 h-5'')"
  by (simp add: getStatusColor_def getStatusIcon_def strict_eq_str_def)

theorem status_rendering_total_witness:
  "getStatusColor (JStr ''paused'') = ''text-gray-400'' \<and>
   getStatusIcon (JStr ''paused'') = Element Activity ''w-5 h-5'' \<and>
   getStatusColor JUndefined = ''text-gray-400'' \<and>
   getStatusIcon JUndefined = Element Activity ''w-5 h-5''"
  using status_rendering_total [of "JStr ''paused''"] status_rendering_total [of JUndefined]
  by simp

text \<open>
  C5: the count field does not keep a negative number out. Typing \<^verbatim>\<open>-5\<close> into the
  white-boxes field stores \<open>- 5\<close> in the form state, and \<^verbatim>\<open>createOrder\<close> then posts
  \<^verbatim>\<open>white_boxes: -5\<close> to \<^verbatim>\<open>/api/orders\<close>.
\<close>

theorem onChange_stores_negative:
  "run_ops (onChange_white initial_client ''-5'') initial_client =
     initial_client\<lparr>newOrder := \<lparr>white_boxes = - 5, yellow_boxes = 1, black_boxes = 0\<rparr>\<rparr> \<and>
   createOrder (initial_client\<lparr>newOrder := \<lparr>white_boxes = - 5, yellow_boxes = 1, black_boxes = 0\<rparr>\<rparr>)
       Rejected Rejected =
     [HttpPost ''http://localhost:8000/api/orders''
        (JObj [(''white_boxes'', JNum (- 5)), (''yellow_boxes'', JNum 1), (''black_boxes'', JNum 0)]),
      ConsoleError ''Error creating order:'']"
  by (simp add: onChange_white_def parsed_or_0_def parseInt_def is_ws_def is_digit_def digit_val_def
      digits_value_def initial_client_def initial_new_order_def createOrder_def new_order_js_def API_URL_def)



lemma percent_bounds:
  fixes n d :: rat
  assumes "0 \<le> n" and "n \<le> d" and "0 < d"
  shows "0 \<le> n / d * 100 \<and> n / d * 100 \<le> 100"
proof -
  have q1: "n / d \<le> 1" using assms by (simp add: divide_le_eq_1)
  have q0: "0 \<le> n / d" using assms by simp
  from q1 have "n / d * 100 \<le> 1 * 100" by (rule mult_right_mono) simp
  moreover from q0 have "0 \<le> n / d * 100" by (rule mult_nonneg_nonneg) simp
  ultimately show ?thesis by simp
qed

text \<open>
  C4: for an order whose status is \<^verbatim>\<open>'in_progress'\<close>, whose six counters are integers
  (an absent counter counts as 0, as \<^verbatim>\<open>|| 0\<close> makes it) with
  \<open>0 \<le> completed \<le> requested\<close> for every color and at least one unit requested in
  total: the divisor of the progress bar's width is not zero, and the width,
  \<open>completed / requested * 100\<close> over the three colors, lies between 0 and 100.
\<close>

theorem progress_bar_bounds:
  assumes st: "field ord ''status'' = JStr ''in_progress''"
    and cw: "num_or_0 (field ord ''completed_white'') = Some (of_int cw)"
    and cy: "num_or_0 (field ord ''completed_yellow'') = Some (of_int cy)"
    and cb: "num_or_0 (field ord ''completed_black'') = Some (of_int cb)"
    and w: "num_or_0 (field ord ''white_boxes'') = Some (of_int w)"
    and y: "num_or_0 (field ord ''yellow_boxes'') = Some (of_int y)"
    and b: "num_or_0 (field ord ''black_boxes'') = Some (of_int b)"
    and white: "0 \<le> cw \<and> cw \<le> w"
    and yellow: "0 \<le> cy \<and> cy \<le> y"
    and black: "0 \<le> cb \<and> cb \<le> b"
    and total: "1 \<le> w + y + b"
  shows "\<exists>n d. completed_total ord = Some n \<and> requested_total ord = Some d \<and> d \<noteq> 0 \<and>
           progress_bar ord = Width (Finite (n / d * 100)) \<and>
           0 \<le> n / d * 100 \<and> n / d * 100 \<le> 100"
proof -
  let ?n = "of_int (cw + cy + cb) :: rat"
  let ?d = "of_int (w + y + b) :: rat"
  have n: "completed_total ord = Some ?n"
    by (simp add: completed_total_def add3_def cw cy cb)
  have d: "requested_total ord = Some ?d"
    by (simp add: requested_total_def add3_def w y b)
  have dpos: "0 < ?d" using total by simp
  have nn: "0 \<le> ?n" using white yellow black by simp
  have le: "?n \<le> ?d" using white yellow black by (simp only: of_int_le_iff) simp
  have bar: "progress_bar ord = Width (Finite (?n / ?d * 100))"
    using dpos by (simp add: progress_bar_def st strict_eq_str_def n d js_div_def)
  have lohi: "0 \<le> ?n / ?d * 100 \<and> ?n / ?d * 100 \<le> 100"
    using nn le dpos by (rule percent_bounds)
  have "?d \<noteq> 0" using dpos by simp
  with n d bar lohi show ?thesis by blast
qed

theorem progress_bar_bounds_witness:
  "progress_bar (JObj [(''id'', JStr ''a1''), (''status'', JStr ''in_progress''),
      (''white_boxes'', JNum 2), (''yellow_boxes'', JNum 1), (''black_boxes'', JNum 0),
      (''completed_white'', JNum 1), (''completed_yellow'', JNum 0)]) = Width (Finite (100 / 3))"
  using progress_bar_bounds [of "JObj [(''id'', JStr ''a1''), (''status'', JStr ''in_progress''),
      (''white_boxes'', JNum 2), (''yellow_boxes'', JNum 1), (''black_boxes'', JNum 0),
      (''completed_white'', JNum 1), (''completed_yellow'', JNum 0)]" 1 0 0 2 1 0]
  by (simp add: num_or_0_def completed_total_def requested_total_def add3_def)


section \<open>Properties of the coordinator\<close>

lemma count_update:
  "i < length xs \<Longrightarrow>
   length (filter P (xs[i := v])) + (if P (xs ! i) then 1 else 0) =
   length (filter P xs) + (if P v then 1 else 0)"
proof (induction xs arbitrary: i)
  case Nil
  then show ?case by simp
next
  case (Cons x xs)
  then show ?case by (cases i) auto
qed

lemma n_phase_set_phase:
  assumes "i < length cs" and "call_phase (cs ! i) = old"
  shows "n_phase ph (set_phase i new cs) + (if old = ph then 1 else 0) =
         n_phase ph cs + (if new = ph then 1 else 0)"
  using count_update [OF assms(1), of "\<lambda>c. call_phase c = ph" "(cs ! i)\<lparr>call_phase := new\<rparr>"] assms(2)
  by (simp add: n_phase_def set_phase_def)

lemma n_phase_append:
  "n_phase ph (cs @ [\<lparr>call_request = r, call_phase = new\<rparr>]) =
   n_phase ph cs + (if new = ph then 1 else 0)"
  by (simp add: n_phase_def)

lemma n_phase_pos:
  "i < length cs \<Longrightarrow> call_phase (cs ! i) = ph \<Longrightarrow> 0 < n_phase ph cs"
  unfolding n_phase_def by (auto simp: filter_empty_conv)

lemma coherent_initial: "coherent initial_system"
  by (simp add: coherent_def initial_system_def n_phase_def)

lemma coherent_issue: "coherent s \<Longrightarrow> coherent (issue r s)"
  by (auto simp: coherent_def issue_def requestPick_def n_phase_append
      split: option.splits if_splits)

lemma coherent_load_done:
  assumes "coherent s"
  shows "coherent (load_done i ok s)"
proof (cases "i < length (calls s) \<and> call_phase (calls s ! i) = AwaitLoad")
  case False
  then show ?thesis using assms by (auto simp: load_done_def)
next
  case True
  then have i: "i < length (calls s)" and ph: "call_phase (calls s ! i) = AwaitLoad"
    by simp_all
  from n_phase_pos [OF i ph] assms
  have st: "status s = Loading_model" and nl: "n_phase AwaitLoad (calls s) = 1"
    and np: "n_phase AwaitPick (calls s) = 0"
    by (auto simp: coherent_def split: if_splits)
  show ?thesis
    using n_phase_set_phase [OF i ph, of AwaitLoad AwaitPick]
      n_phase_set_phase [OF i ph, of AwaitPick AwaitPick]
      n_phase_set_phase [OF i ph, of AwaitLoad "Returned ModelLoadFailed"]
      n_phase_set_phase [OF i ph, of AwaitPick "Returned ModelLoadFailed"]
      True nl np
    by (simp add: load_done_def coherent_def)
qed

lemma coherent_pick_done:
  assumes "coherent s"
  shows "coherent (pick_done i ok s)"
proof (cases "i < length (calls s) \<and> call_phase (calls s ! i) = AwaitPick")
  case False
  then show ?thesis using assms by (auto simp: pick_done_def)
next
  case True
  then have i: "i < length (calls s)" and ph: "call_phase (calls s ! i) = AwaitPick"
    by simp_all
  from n_phase_pos [OF i ph] assms
  have st: "status s = Picking" and nl: "n_phase AwaitLoad (calls s) = 0"
    and np: "n_phase AwaitPick (calls s) = 1"
    by (auto simp: coherent_def split: if_splits)
  show ?thesis
    using n_phase_set_phase [OF i ph, of AwaitLoad "Returned Success"]
      n_phase_set_phase [OF i ph, of AwaitPick "Returned Success"]
      n_phase_set_phase [OF i ph, of AwaitLoad "Returned PickFailed"]
      n_phase_set_phase [OF i ph, of AwaitPick "Returned PickFailed"]
      True nl np
    by (simp add: pick_done_def coherent_def)
qed

lemma coherent_step: "coherent s \<Longrightarrow> coherent (step s e)"
proof (cases e)
  case (Issue r)
  assume "coherent s"
  then show ?thesis using Issue by (simp add: coherent_issue)
next
  case (LoadDone i ok)
  assume "coherent s"
  then show ?thesis using LoadDone by (simp add: coherent_load_done)
next
  case (PickDone i ok)
  assume "coherent s"
  then show ?thesis using PickDone by (simp add: coherent_pick_done)
next
  case (CreateOrder req)
  assume "coherent s"
  then show ?thesis using CreateOrder by (simp add: coherent_def create_order_def)
next
  case (DeleteOrder i)
  assume "coherent s"
  then show ?thesis using DeleteOrder by (simp add: coherent_def delete_order_def)
next
  case Reset
  assume "coherent s"
  then show ?thesis using Reset by (auto simp: coherent_def reset_def)
qed

lemma coherent_run: "coherent s \<Longrightarrow> coherent (run evs s)"
  unfolding run_def by (induction evs arbitrary: s) (simp_all add: coherent_step)

lemma in_flight_count:
  "length (filter in_flight cs) = n_phase AwaitLoad cs + n_phase AwaitPick cs"
  unfolding n_phase_def in_flight_def by (induction cs) auto

lemma flying_count:
  "length (flying s) = n_phase AwaitLoad (calls s) + n_phase AwaitPick (calls s)"
  by (simp add: flying_def in_flight_count)


lemma returned_issue:
  "j < length (calls s) \<Longrightarrow> call_phase (calls s ! j) = Returned x \<Longrightarrow>
   j < length (calls (issue r s)) \<and> call_phase (calls (issue r s) ! j) = Returned x"
  by (auto simp: issue_def requestPick_def nth_append split: option.splits)

lemma returned_set_phase:
  "j < length cs \<Longrightarrow> call_phase (cs ! j) = Returned x \<Longrightarrow> call_phase (cs ! i) \<noteq> Returned x \<Longrightarrow>
   j < length (set_phase i ph cs) \<and> call_phase (set_phase i ph cs ! j) = Returned x"
  by (cases "i = j") (auto simp: set_phase_def)

lemma returned_load_done:
  "j < length (calls s) \<Longrightarrow> call_phase (calls s ! j) = Returned x \<Longrightarrow>
   j < length (calls (load_done i ok s)) \<and> call_phase (calls (load_done i ok s) ! j) = Returned x"
  using returned_set_phase [of j "calls s" x i]
  by (auto simp: load_done_def)

lemma returned_pick_done:
  "j < length (calls s) \<Longrightarrow> call_phase (calls s ! j) = Returned x \<Longrightarrow>
   j < length (calls (pick_done i ok s)) \<and> call_phase (calls (pick_done i ok s) ! j) = Returned x"
  using returned_set_phase [of j "calls s" x i]
  by (auto simp: pick_done_def)

lemma returned_step:
  "j < length (calls s) \<Longrightarrow> call_phase (calls s ! j) = Returned x \<Longrightarrow>
   j < length (calls (step s e)) \<and> call_phase (calls (step s e) ! j) = Returned x"
  by (cases e)
     (simp_all add: returned_issue returned_load_done returned_pick_done
        create_order_def delete_order_def reset_def)

lemma returned_run:
  "j < length (calls s) \<Longrightarrow> call_phase (calls s ! j) = Returned x \<Longrightarrow>
   j < length (calls (run evs s)) \<and> call_phase (calls (run evs s) ! j) = Returned x"
proof (induction evs arbitrary: s)
  case Nil
  then show ?case by (simp add: run_def)
next
  case (Cons e evs)
  from returned_step [OF Cons.prems, of e]
  have "j < length (calls (step s e))" and "call_phase (calls (step s e) ! j) = Returned x"
    by simp_all
  from Cons.IH [OF this] show ?case by (simp add: run_def)
qed

lemma run_append: "run (xs @ ys) s = run ys (run xs s)"
  by (simp add: run_def)

lemma issue_while_busy:
  assumes "status s \<noteq> Idle"
  shows "issue r s =
    s\<lparr>calls := calls s @
        [\<lparr>call_request = r,
          call_phase = Returned (case validate r (order_store s) of None \<Rightarrow> Busy | Some e \<Rightarrow> e)\<rparr>]\<rparr>"
  using assms by (simp add: issue_def requestPick_def split: option.split)

lemma at_most_one_in_flight: "length (flying (run evs initial_system)) \<le> 1"
  using coherent_run [OF coherent_initial, of evs]
  by (simp add: flying_count coherent_def)

text \<open>
  C1, as amended: in every state the coordinator can reach, at most one call of
  handlePick is in flight. When a call is issued while another is in loading_model or
  picking, exactly one call is in flight, and the later call does not move the robot:
  the robot's status and model, the order store and the call in flight are untouched,
  and the later call returns at once, with Busy when it names no order or an order that
  can absorb the color, and with OrderNotFound or OrderExhausted otherwise (step 1 of
  handlePick comes before the robot is asked). Whatever happens later, that outcome
  stands, so the later call never succeeds, and at most one call is in flight.
\<close>

theorem handlePick_exclusive:
  assumes reach: "s = run evs initial_system"
    and busy: "status s = Loading_model \<or> status s = Picking"
  shows "length (flying s) = 1 \<and>
         robot_of (issue r s) = robot_of s \<and>
         order_store (issue r s) = order_store s \<and>
         flying (issue r s) = flying s \<and>
         calls (issue r s) = calls s @
           [\<lparr>call_request = r,
             call_phase = Returned (case validate r (order_store s) of
                                      None \<Rightarrow> Busy | Some e \<Rightarrow> e)\<rparr>] \<and>
         (\<forall>later. call_phase (calls (run later (issue r s)) ! length (calls s)) =
                    Returned (case validate r (order_store s) of
                                None \<Rightarrow> Busy | Some e \<Rightarrow> e)) \<and>
         (\<forall>later. length (flying (run later (issue r s))) \<le> 1) \<and>
         (\<forall>trace. length (flying (run trace initial_system)) \<le> 1)"
proof -
  let ?out = "Returned (case validate r (order_store s) of None \<Rightarrow> Busy | Some e \<Rightarrow> e)"
  have coh: "coherent s"
    using coherent_run [OF coherent_initial, of evs] reach by simp
  have one: "length (flying s) = 1"
    using coh busy by (auto simp: flying_count coherent_def)
  have notidle: "status s \<noteq> Idle" using busy by auto
  note iss = issue_while_busy [OF notidle, of r]
  have robot: "robot_of (issue r s) = robot_of s"
    by (simp add: iss robot_of_def)
  have store: "order_store (issue r s) = order_store s"
    by (simp add: iss)
  have fly: "flying (issue r s) = flying s"
    by (simp add: iss flying_def in_flight_def)
  have cs: "calls (issue r s) = calls s @ [\<lparr>call_request = r, call_phase = ?out\<rparr>]"
    by (simp add: iss)
  have j: "length (calls s) < length (calls (issue r s))"
    and ph: "call_phase (calls (issue r s) ! length (calls s)) = ?out"
    by (simp_all add: cs)
  have forever: "\<forall>later. call_phase (calls (run later (issue r s)) ! length (calls s)) = ?out"
    using returned_run [OF j ph] by simp
  have excl: "\<forall>later. length (flying (run later (issue r s))) \<le> 1"
  proof
    fix later
    have eq: "run later (issue r s) = run (evs @ Issue r # later) initial_system"
      by (simp add: reach run_def)
    show "length (flying (run later (issue r s))) \<le> 1"
      unfolding eq by (rule at_most_one_in_flight)
  qed
  have always: "\<forall>trace. length (flying (run trace initial_system)) \<le> 1"
    by (rule allI) (rule at_most_one_in_flight)
  from one robot store fly cs forever excl always show ?thesis by blast
qed

theorem handlePick_exclusive_witness:
  "status (run [Issue \<lparr>pick_color = White, pick_order = None\<rparr>] initial_system) = Loading_model \<and>
   call_phase (calls (run [LoadDone 0 True, PickDone 0 True]
       (issue \<lparr>pick_color = Yellow, pick_order = None\<rparr>
          (run [Issue \<lparr>pick_color = White, pick_order = None\<rparr>] initial_system))) ! 1) = Returned Busy \<and>
   call_phase (calls (run [LoadDone 0 True, PickDone 0 True]
       (issue \<lparr>pick_color = Yellow, pick_order = None\<rparr>
          (run [Issue \<lparr>pick_color = White, pick_order = None\<rparr>] initial_system))) ! 0) = Returned Success"
proof -
  let ?w = "\<lparr>pick_color = White, pick_order = None\<rparr>"
  let ?y = "\<lparr>pick_color = Yellow, pick_order = None\<rparr>"
  let ?s = "run [Issue ?w] initial_system"
  have s: "?s = \<lparr>status = Loading_model, current_model = None, order_store = [], next_order_id = 0,
                 calls = [\<lparr>call_request = ?w, call_phase = AwaitLoad\<rparr>]\<rparr>"
    by (simp add: run_def issue_def validate_def requestPick_def initial_system_def)
  have busy: "status ?s = Loading_model \<or> status ?s = Picking"
    by (simp add: s)
  from handlePick_exclusive [OF refl busy, of ?y]
  have "call_phase (calls (run [LoadDone 0 True, PickDone 0 True] (issue ?y ?s)) ! length (calls ?s)) =
          Returned (case validate ?y (order_store ?s) of None \<Rightarrow> Busy | Some e \<Rightarrow> e)"
    by blast
  then have later: "call_phase (calls (run [LoadDone 0 True, PickDone 0 True] (issue ?y ?s)) ! 1) = Returned Busy"
    by (simp add: s validate_def)
  have first: "call_phase (calls (run [LoadDone 0 True, PickDone 0 True] (issue ?y ?s)) ! 0) = Returned Success"
    by (simp add: run_def issue_def validate_def requestPick_def load_done_def pick_done_def
        set_phase_def initial_system_def)
  from s later first show ?thesis by simp
qed

text \<open>
  C1 as stated fails for a later call that names an order the store does not have: issued
  while the first call is in loading_model, it returns OrderNotFound, not Busy, and the
  first call is still in flight, so neither call has received Busy.
\<close>

theorem handlePick_order_checked_first_counterexample:
  "status (run [Issue \<lparr>pick_color = White, pick_order = None\<rparr>] initial_system) = Loading_model \<and>
   call_phase (calls (run [Issue \<lparr>pick_color = White, pick_order = None\<rparr>,
                           Issue \<lparr>pick_color = Yellow, pick_order = Some 7\<rparr>] initial_system) ! 1) =
     Returned OrderNotFound \<and>
   call_phase (calls (run [Issue \<lparr>pick_color = White, pick_order = None\<rparr>,
                           Issue \<lparr>pick_color = Yellow, pick_order = Some 7\<rparr>] initial_system) ! 1) \<noteq>
     Returned Busy \<and>
   call_phase (calls (run [Issue \<lparr>pick_color = White, pick_order = None\<rparr>,
                           Issue \<lparr>pick_color = Yellow, pick_order = Some 7\<rparr>] initial_system) ! 0) =
     AwaitLoad"
  by (simp add: run_def issue_def validate_def requestPick_def initial_system_def)


end
